theory Spec2Isabelle
  imports Complex_Main "HOL-Library.Product_Lexorder" "HOL-Library.Multiset" "HOL-Library.Sublist"
begin

section \<open>Python values used by the cost and recommendation services\<close>

text \<open>
  The services compute on Python floats. A float is modelled as a real number: every
  arithmetic operation is exact, and the only rounding is the one the source asks for
  by calling \<^verbatim>\<open>round\<close>. What depends on the rounding error of IEEE-754 doubles is
  outside this development.
\<close>

datatype py_error = KeyError | ZeroDivisionError | ValueError

text \<open>
  \<^verbatim>\<open>round(x)\<close> rounds to the nearest integer and a tie goes to the even neighbour;
  \<^verbatim>\<open>round(x, n)\<close> does the same at the n-th decimal.
\<close>

definition round_half_even :: "real \<Rightarrow> int" where
  "round_half_even x =
     (let f = \<lfloor>x\<rfloor>; r = x - of_int f in
      if r < 1 / 2 then f
      else if 1 / 2 < r then f + 1
      else if even f then f else f + 1)"

definition py_round :: "real \<Rightarrow> nat \<Rightarrow> real" where
  "py_round x ndigits = of_int (round_half_even (x * 10 ^ ndigits)) / 10 ^ ndigits"

text \<open>\<^verbatim>\<open>d[k]\<close> raises KeyError on a missing key; \<^verbatim>\<open>d.get(k, default)\<close> never raises.\<close>

definition subscript :: "('k \<times> 'v) list \<Rightarrow> 'k \<Rightarrow> py_error + 'v" where
  "subscript d k = (case map_of d k of None \<Rightarrow> Inl KeyError | Some v \<Rightarrow> Inr v)"

definition dict_get :: "('k \<times> 'v) list \<Rightarrow> 'k \<Rightarrow> 'v \<Rightarrow> 'v" where
  "dict_get d k dflt = (case map_of d k of None \<Rightarrow> dflt | Some v \<Rightarrow> v)"

text \<open>\<^verbatim>\<open>a / b\<close> raises ZeroDivisionError when b is zero.\<close>

definition truediv :: "real \<Rightarrow> real \<Rightarrow> py_error + real" where
  "truediv a b = (if b = 0 then Inl ZeroDivisionError else Inr (a / b))"

section \<open>RecommendationService.calculate\_transportation\_cost\<close>

text \<open>
  The returned dict, in insertion order: one entry per transport mode and, last, the
  entry \<^verbatim>\<open>'recommended'\<close> that holds a copy of the recommended mode's cost.
\<close>

definition calculate_transportation_cost :: "real \<Rightarrow> (string \<times> real) list" where
  "calculate_transportation_cost distance_km =
     (if distance_km < 50 then
        (let bus = py_round (distance_km * 0.50) 2;
             taxi = py_round (distance_km * 1.50) 2
         in [(''bus'', bus), (''taxi'', taxi), (''recommended'', bus)])
      else if distance_km < 300 then
        (let bus = py_round (50 + (distance_km - 50) * 0.15) 2;
             train = py_round (40 + (distance_km - 50) * 0.20) 2;
             taxi = py_round (distance_km * 1.20) 2
         in [(''bus'', bus), (''train'', train), (''taxi'', taxi), (''recommended'', bus)])
      else if distance_km < 1000 then
        (let train = py_round (80 + (distance_km - 300) * 0.12) 2;
             budget_flight = py_round (100 + (distance_km - 300) * 0.25) 2;
             standard_flight = py_round (150 + (distance_km - 300) * 0.35) 2
         in [(''train'', train), (''budget_flight'', budget_flight),
             (''standard_flight'', standard_flight), (''recommended'', budget_flight)])
      else if distance_km < 3000 then
        (let budget_flight = py_round (250 + (distance_km - 1000) * 0.15) 2;
             standard_flight = py_round (400 + (distance_km - 1000) * 0.20) 2;
             premium_flight = py_round (800 + (distance_km - 1000) * 0.30) 2
         in [(''budget_flight'', budget_flight), (''standard_flight'', standard_flight),
             (''premium_flight'', premium_flight), (''recommended'', budget_flight)])
      else
        (let budget_flight = py_round (550 + (distance_km - 3000) * 0.08) 2;
             standard_flight = py_round (900 + (distance_km - 3000) * 0.12) 2;
             business_flight = py_round (2000 + (distance_km - 3000) * 0.25) 2
         in [(''budget_flight'', budget_flight), (''standard_flight'', standard_flight),
             (''business_flight'', business_flight), (''recommended'', budget_flight)]))"


section \<open>RecommendationService.calculate\_comprehensive\_budget\<close>

record budget_breakdown =
  transportation :: real
  transportation_options :: "(string \<times> real) list"
  accommodation :: real
  accommodation_per_night :: real
  food :: real
  food_per_day :: real
  local_transport :: real
  activities :: real
  miscellaneous :: real
  insurance :: real
  contingency :: real
  subtotal :: real
  total :: real
  per_day_average :: real

definition accommodation_multipliers :: "(string option \<times> real) list" where
  "accommodation_multipliers =
     [(Some ''budget'', 0.6), (Some ''mid-range'', 1.0), (Some ''luxury'', 2.5)]"

definition food_multipliers :: "(string option \<times> real) list" where
  "food_multipliers =
     [(Some ''budget'', 0.7), (Some ''mid-range'', 1.0), (Some ''luxury'', 2.0)]"

text \<open>
  \<^verbatim>\<open>budget_tier\<close> is an optional string; \<^verbatim>\<open>duration_days\<close> is a Python int. The two
  places where the source could raise are its subscript \<^verbatim>\<open>transport_costs['recommended']\<close>
  and its division by \<^verbatim>\<open>duration_days\<close>.
\<close>

definition calculate_comprehensive_budget ::
  "real \<Rightarrow> int \<Rightarrow> real \<Rightarrow> string option \<Rightarrow> py_error + budget_breakdown" where
  "calculate_comprehensive_budget distance_km duration_days destination_daily_cost budget_tier =
     (let transport_costs = calculate_transportation_cost distance_km in
      case subscript transport_costs ''recommended'' of
        Inl e \<Rightarrow> Inl e
      | Inr recommended \<Rightarrow>
     (let transport_total = recommended * 2;
          accommodation_multiplier = dict_get accommodation_multipliers budget_tier 1.0;
          accommodation_per_night' = destination_daily_cost * 0.4 * accommodation_multiplier;
          accommodation_total = accommodation_per_night' * of_int duration_days;
          food_multiplier = dict_get food_multipliers budget_tier 1.0;
          food_per_day' = destination_daily_cost * 0.35 * food_multiplier;
          food_total = food_per_day' * of_int duration_days;
          local_transport_per_day = destination_daily_cost * 0.15 * accommodation_multiplier;
          local_transport_total = local_transport_per_day * of_int duration_days;
          activities_per_day = destination_daily_cost * 0.10;
          activities_total = activities_per_day * of_int duration_days;
          misc_total = (food_total + activities_total) * 0.15;
          subtotal' = transport_total + accommodation_total + food_total
                      + local_transport_total + activities_total + misc_total;
          insurance' = subtotal' * 0.05;
          total_before_contingency = subtotal' + insurance';
          contingency' = total_before_contingency * 0.10;
          grand_total = total_before_contingency + contingency'
      in
      case (if duration_days > 0
            then (case truediv grand_total (of_int duration_days) of
                    Inl e \<Rightarrow> Inl e | Inr q \<Rightarrow> Inr (py_round q 2))
            else Inr 0) of
        Inl e \<Rightarrow> Inl e
      | Inr average \<Rightarrow>
          Inr \<lparr> transportation = py_round transport_total 2,
                transportation_options = transport_costs,
                accommodation = py_round accommodation_total 2,
                accommodation_per_night = py_round accommodation_per_night' 2,
                food = py_round food_total 2,
                food_per_day = py_round food_per_day' 2,
                local_transport = py_round local_transport_total 2,
                activities = py_round activities_total 2,
                miscellaneous = py_round misc_total 2,
                insurance = py_round insurance' 2,
                contingency = py_round contingency' 2,
                subtotal = py_round subtotal' 2,
                total = py_round grand_total 2,
                per_day_average = average \<rparr>))"




section \<open>RecommendationService.calculate\_distance\<close>

text \<open>
  The functions of Python's \<^verbatim>\<open>math\<close> module that the Haversine formula uses.
  \<^verbatim>\<open>math.sqrt\<close> raises ValueError on a negative argument.
\<close>

definition radians :: "real \<Rightarrow> real" where
  "radians x = x * pi / 180"

definition py_sqrt :: "real \<Rightarrow> py_error + real" where
  "py_sqrt x = (if x < 0 then Inl ValueError else Inr (sqrt x))"

definition atan2 :: "real \<Rightarrow> real \<Rightarrow> real" where
  "atan2 y x =
     (if 0 < x then arctan (y / x)
      else if x < 0 then (if 0 \<le> y then arctan (y / x) + pi else arctan (y / x) - pi)
      else if 0 < y then pi / 2
      else if y < 0 then - (pi / 2)
      else 0)"

definition EARTH_RADIUS_KM :: real where
  "EARTH_RADIUS_KM = 6371"

definition calculate_distance :: "real \<Rightarrow> real \<Rightarrow> real \<Rightarrow> real \<Rightarrow> py_error + real" where
  "calculate_distance lat1 lon1 lat2 lon2 =
     (let lat1_rad = radians lat1; lon1_rad = radians lon1;
          lat2_rad = radians lat2; lon2_rad = radians lon2;
          dlat = lat2_rad - lat1_rad;
          dlon = lon2_rad - lon1_rad;
          a = (sin (dlat / 2))\<^sup>2 + cos lat1_rad * cos lat2_rad * (sin (dlon / 2))\<^sup>2
      in case py_sqrt a of
           Inl e \<Rightarrow> Inl e
         | Inr root_a \<Rightarrow>
             (case py_sqrt (1 - a) of
                Inl e \<Rightarrow> Inl e
              | Inr root_b \<Rightarrow> Inr (EARTH_RADIUS_KM * (2 * atan2 root_a root_b))))"

section \<open>Destinations and recommendations\<close>

text \<open>
  A row of the table \<^verbatim>\<open>destinations\<close>. Every nullable column is an option; the column
  \<^verbatim>\<open>id\<close> is the field \<open>dest_id\<close>, and \<^verbatim>\<open>created_at\<close> holds the timestamp as the text
  that \<^verbatim>\<open>isoformat()\<close> gives.
\<close>

record destination =
  dest_id :: int
  title :: string
  description :: "string option"
  category :: "string option"
  budget_tier :: "string option"
  latitude :: "real option"
  longitude :: "real option"
  website :: "string option"
  country :: "string option"
  city :: "string option"
  average_cost_per_day :: "real option"
  best_time_to_visit :: "string option"
  rating :: "real option"
  review_count :: "int option"
  popularity_score :: "real option"
  tags :: "string option"
  estimated_duration_hours :: "real option"
  created_at :: "string option"







section \<open>RecommendationService.get\_recommendations\<close>

subsection \<open>The query\<close>



subsection \<open>The body of the loop over the destinations\<close>






subsection \<open>Sorting and truncation\<close>










subsection \<open>Destinations for concrete calls\<close>



subsection \<open>The order the specification asks for\<close>


section \<open>CostCalculationService: the trip-cost path\<close>

text \<open>
  The functions of the class \<^verbatim>\<open>CostCalculationService\<close>. Two of them have the name of a
  function of \<^verbatim>\<open>RecommendationService\<close> and carry the suffix \<open>_ccs\<close> here.
\<close>

subsection \<open>Strings\<close>






subsection \<open>Tables\<close>




subsection \<open>get\_destination\_cost\_index and calculate\_daily\_costs\<close>



subsection \<open>Transport to the destination\<close>


text \<open>
  Of the dict that \<^verbatim>\<open>calculate_transportation_cost\<close> returns, \<^verbatim>\<open>calculate_trip_costs\<close> reads
  the entries \<^verbatim>\<open>'recommended'\<close> and \<^verbatim>\<open>'recommended_cost'\<close> for its costs; the entries of the
  single modes (name, icon, duration, availability and rounded cost) only go into the
  details shown with the result and are left out here.
\<close>

record transport_recommendation =
  recommended :: string
  recommended_cost :: real


subsection \<open>calculate\_trip\_costs\<close>



section \<open>Properties of rounding and of the tier tables\<close>



lemma recommended_present:
  "\<exists>rc. map_of (calculate_transportation_cost d) ''recommended'' = Some rc"
  by (simp add: calculate_transportation_cost_def Let_def)





lemma dict_get_unknown_accommodation:
  "t \<notin> {Some ''budget'', Some ''mid-range'', Some ''luxury''} \<Longrightarrow>
   dict_get accommodation_multipliers t 1.0 = dict_get accommodation_multipliers (Some ''mid-range'') 1.0"
  by (simp add: dict_get_def accommodation_multipliers_def)

lemma dict_get_unknown_food:
  "t \<notin> {Some ''budget'', Some ''mid-range'', Some ''luxury''} \<Longrightarrow>
   dict_get food_multipliers t 1.0 = dict_get food_multipliers (Some ''mid-range'') 1.0"
  by (simp add: dict_get_def food_multipliers_def)

lemma budget_never_raises: "\<not> isl (calculate_comprehensive_budget d n c t)"
proof -
  obtain rc where rc: "map_of (calculate_transportation_cost d) ''recommended'' = Some rc"
    using recommended_present by blast
  show ?thesis
    using rc by (simp add: calculate_comprehensive_budget_def subscript_def truediv_def Let_def)
qed



section \<open>Transport cost tiers\<close>




section \<open>Budget synthesis\<close>




text \<open>
  Claim C5 asks for an unknown tier to be rejected with an error. The call with the tier
  \<^verbatim>\<open>'premium'\<close> returns a breakdown instead.
\<close>

theorem unknown_tier_counterexample:
  "calculate_comprehensive_budget 0 3 100 (Some ''premium'') =
     Inr \<lparr> transportation = 0,
           transportation_options = [(''bus'', 0), (''taxi'', 0), (''recommended'', 0)],
           accommodation = 120, accommodation_per_night = 40, food = 105,
           food_per_day = 35, local_transport = 45, activities = 30,
           miscellaneous = 20.25, insurance = 16.01, contingency = 33.63,
           subtotal = 320.25, total = 369.89, per_day_average = 123.3 \<rparr>"
  by (simp add: calculate_comprehensive_budget_def calculate_transportation_cost_def
      subscript_def dict_get_def truediv_def accommodation_multipliers_def food_multipliers_def
      py_round_def round_half_even_def Let_def)

text \<open>
  Claim C5, as the code has it. A tier outside the tables, or no tier at all, is not
  rejected: both lookups fall back on the multiplier 1.0, so the breakdown is the one of
  the tier mid-range, and the call does not raise.
\<close>

theorem unknown_tier_defaults:
  assumes "t \<notin> {Some ''budget'', Some ''mid-range'', Some ''luxury''}"
  shows "calculate_comprehensive_budget d n c t
           = calculate_comprehensive_budget d n c (Some ''mid-range'')
         \<and> \<not> isl (calculate_comprehensive_budget d n c t)"
proof -
  have "calculate_comprehensive_budget d n c t
           = calculate_comprehensive_budget d n c (Some ''mid-range'')"
    unfolding calculate_comprehensive_budget_def
    by (simp only: dict_get_unknown_accommodation[OF assms] dict_get_unknown_food[OF assms])
  then show ?thesis using budget_never_raises by simp
qed

theorem unknown_tier_defaults_witness:
  "Some ''premium'' \<notin> {Some ''budget'', Some ''mid-range'', Some ''luxury''}
   \<and> calculate_comprehensive_budget 250 2 60 (Some ''premium'')
       = calculate_comprehensive_budget 250 2 60 (Some ''mid-range'')
   \<and> \<not> isl (calculate_comprehensive_budget 250 2 60 (Some ''premium''))"
proof -
  have h: "Some ''premium'' \<notin> {Some ''budget'', Some ''mid-range'', Some ''luxury''}"
    by simp
  show ?thesis using unknown_tier_defaults[OF h, of 250 2 60] h by blast
qed







section \<open>The Haversine distance over the reals\<close>




lemma calculate_distance_sym:
  "calculate_distance lat1 lon1 lat2 lon2 = calculate_distance lat2 lon2 lat1 lon1"
proof -
  have neg: "(sin ((u - v) / 2))\<^sup>2 = (sin ((v - u) / 2))\<^sup>2" for u v :: real
  proof -
    have "(u - v) / 2 = - ((v - u) / 2)" by argo
    then have "sin ((u - v) / 2) = - sin ((v - u) / 2)" by (simp only: sin_minus)
    then show ?thesis by (simp only: power2_minus)
  qed
  show ?thesis
    unfolding calculate_distance_def Let_def
      neg[of "radians lat2" "radians lat1"] neg[of "radians lon2" "radians lon1"]
      mult.commute[of "cos (radians lat2)" "cos (radians lat1)"] ..
qed

section \<open>The ranking never raises\<close>







section \<open>What the loop body returns\<close>













section \<open>Sorting and truncation\<close>




section \<open>Entries of the result\<close>











section \<open>The trip-cost path\<close>






section \<open>Distance filtering\<close>





section \<open>Order and length of the result\<close>





section \<open>Coordinates equal to zero\<close>





section \<open>A distance of zero\<close>



section \<open>The second budget path\<close>





end
